theory Spec2Isabelle
  imports Main "HOL-Library.Word"
begin

unbundle bit_operations_syntax

section \<open>Bytes and strings\<close>

text \<open>
  The program handles JavaScript strings and hands them to \<^verbatim>\<open>crypto-js\<close>, which turns a
  string into bytes with \<^verbatim>\<open>Utf8.parse\<close> before hashing. A string is modelled as the list
  of its UTF-8 code units (\<open>string\<close>, one \<open>char\<close> per byte). Every string the program
  itself builds (the timestamp, the nonce, the method path, the hexadecimal signature) is
  ASCII, so for those a \<open>char\<close> is a character and \<open>length\<close> is the JavaScript length.
  The patterns the program searches for (\<^verbatim>\<open>:443\<close>, \<^verbatim>\<open>T\<close>, \<^verbatim>\<open>-\<close>, \<^verbatim>\<open>:\<close>) are ASCII as well, and
  in UTF-8 an ASCII byte never lies inside the encoding of another character, so a search
  in the bytes finds the occurrences that the search in the JavaScript string finds.
\<close>

type_synonym byte = "8 word"
type_synonym w32 = "32 word"

definition Utf8_parse :: "string \<Rightarrow> byte list" where
  "Utf8_parse s = map (\<lambda>c. of_nat (of_char c)) s"

section \<open>SHA-256 as \<^verbatim>\<open>crypto-js\<close> computes it\<close>

text \<open>
  \<^verbatim>\<open>crypto-js\<close> is a library the program imports, not part of its source. The model
  follows the algorithm of its \<^verbatim>\<open>SHA256\<close> and \<^verbatim>\<open>HMAC\<close> objects, which is that of
  FIPS 180-4 and RFC 2104, on bytes and 32-bit words. (The library adds its 32-bit values
  as JavaScript numbers and truncates with \<^verbatim>\<open>| 0\<close>; the sums stay far below 2 to the power 53,
  so this is addition modulo 2 to the power 32.) The lemmas \<open>SHA256_abc\<close> and \<open>HmacSHA256_rfc4231\<close>
  below check the model on a published test vector each.

  The round constants, eight to a row:
\<close>

definition K256 :: "w32 list" where
  "K256 = concat
   [[0x428a2f98, 0x71374491, 0xb5c0fbcf, 0xe9b5dba5, 0x3956c25b, 0x59f111f1, 0x923f82a4, 0xab1c5ed5],
    [0xd807aa98, 0x12835b01, 0x243185be, 0x550c7dc3, 0x72be5d74, 0x80deb1fe, 0x9bdc06a7, 0xc19bf174],
    [0xe49b69c1, 0xefbe4786, 0x0fc19dc6, 0x240ca1cc, 0x2de92c6f, 0x4a7484aa, 0x5cb0a9dc, 0x76f988da],
    [0x983e5152, 0xa831c66d, 0xb00327c8, 0xbf597fc7, 0xc6e00bf3, 0xd5a79147, 0x06ca6351, 0x14292967],
    [0x27b70a85, 0x2e1b2138, 0x4d2c6dfc, 0x53380d13, 0x650a7354, 0x766a0abb, 0x81c2c92e, 0x92722c85],
    [0xa2bfe8a1, 0xa81a664b, 0xc24b8b70, 0xc76c51a3, 0xd192e819, 0xd6990624, 0xf40e3585, 0x106aa070],
    [0x19a4c116, 0x1e376c08, 0x2748774c, 0x34b0bcb5, 0x391c0cb3, 0x4ed8aa4a, 0x5b9cca4f, 0x682e6ff3],
    [0x748f82ee, 0x78a5636f, 0x84c87814, 0x8cc70208, 0x90befffa, 0xa4506ceb, 0xbef9a3f7, 0xc67178f2]]"

datatype hash_state = HashState w32 w32 w32 w32 w32 w32 w32 w32

definition H_init :: hash_state where
  "H_init = HashState 0x6a09e667 0xbb67ae85 0x3c6ef372 0xa54ff53a
                      0x510e527f 0x9b05688c 0x1f83d9ab 0x5be0cd19"

definition rotr32 :: "nat \<Rightarrow> w32 \<Rightarrow> w32" where
  "rotr32 n x = (push_bit (32 - n) x) OR (drop_bit n x)"

definition gamma0 :: "w32 \<Rightarrow> w32" where
  "gamma0 x = rotr32 7 x XOR rotr32 18 x XOR drop_bit 3 x"

definition gamma1 :: "w32 \<Rightarrow> w32" where
  "gamma1 x = rotr32 17 x XOR rotr32 19 x XOR drop_bit 10 x"

definition ch :: "w32 \<Rightarrow> w32 \<Rightarrow> w32 \<Rightarrow> w32" where
  "ch e f g = (e AND f) XOR (NOT e AND g)"

definition maj :: "w32 \<Rightarrow> w32 \<Rightarrow> w32 \<Rightarrow> w32" where
  "maj a b c = (a AND b) XOR (a AND c) XOR (b AND c)"

definition sigma0 :: "w32 \<Rightarrow> w32" where
  "sigma0 a = rotr32 2 a XOR rotr32 13 a XOR rotr32 22 a"

definition sigma1 :: "w32 \<Rightarrow> w32" where
  "sigma1 e = rotr32 6 e XOR rotr32 11 e XOR rotr32 25 e"

text \<open>
  The message schedule. \<open>schedule n W\<close> appends \<open>n\<close> further words to the words computed
  so far: \<^verbatim>\<open>W[i] = gamma0(W[i-15]) + W[i-7] + gamma1(W[i-2]) + W[i-16]\<close>.
\<close>

fun schedule :: "nat \<Rightarrow> w32 list \<Rightarrow> w32 list" where
  "schedule 0 W = W"
| "schedule (Suc n) W =
     (let i = length W
      in schedule n (W @ [gamma0 (W ! (i - 15)) + W ! (i - 7) + gamma1 (W ! (i - 2)) + W ! (i - 16)]))"

fun round256 :: "hash_state \<Rightarrow> w32 \<times> w32 \<Rightarrow> hash_state" where
  "round256 (HashState a b c d e f g h) (k, w) =
     (let t1 = h + sigma1 e + ch e f g + k + w;
          t2 = sigma0 a + maj a b c
      in HashState (t1 + t2) a b c (d + t1) e f g)"

fun add_state :: "hash_state \<Rightarrow> hash_state \<Rightarrow> hash_state" where
  "add_state (HashState a b c d e f g h) (HashState a' b' c' d' e' f' g' h') =
     HashState (a + a') (b + b') (c + c') (d + d') (e + e') (f + f') (g + g') (h + h')"

definition doProcessBlock :: "hash_state \<Rightarrow> w32 list \<Rightarrow> hash_state" where
  "doProcessBlock H M = add_state H (foldl round256 H (zip K256 (schedule 48 M)))"

text \<open>Big-endian packing of bytes into 32-bit words and back.\<close>

fun bytes_to_words :: "byte list \<Rightarrow> w32 list" where
  "bytes_to_words (b0 # b1 # b2 # b3 # bs) =
     (push_bit 24 (ucast b0) OR push_bit 16 (ucast b1) OR push_bit 8 (ucast b2) OR ucast b3)
       # bytes_to_words bs"
| "bytes_to_words _ = []"

definition word_to_bytes :: "w32 \<Rightarrow> byte list" where
  "word_to_bytes w = [ucast (drop_bit 24 w), ucast (drop_bit 16 w), ucast (drop_bit 8 w), ucast w]"

definition length_bytes :: "nat \<Rightarrow> byte list" where
  "length_bytes nBits =
     (let n = (of_nat nBits :: 64 word)
      in word_to_bytes (ucast (drop_bit 32 n)) @ word_to_bytes (ucast n))"

text \<open>
  Padding: one \<open>0x80\<close> byte, zero bytes up to 56 modulo 64, then the bit length in
  64 bits.
\<close>

definition pad256 :: "byte list \<Rightarrow> byte list" where
  "pad256 m =
     m @ [0x80] @ replicate ((119 - length m mod 64) mod 64) 0 @ length_bytes (8 * length m)"

fun blocks :: "w32 list \<Rightarrow> w32 list list" where
  "blocks [] = []"
| "blocks ws = take 16 ws # blocks (drop 16 ws)"

fun state_bytes :: "hash_state \<Rightarrow> byte list" where
  "state_bytes (HashState a b c d e f g h) =
     concat (map word_to_bytes [a, b, c, d, e, f, g, h])"

definition SHA256 :: "byte list \<Rightarrow> byte list" where
  "SHA256 m = state_bytes (foldl doProcessBlock H_init (blocks (bytes_to_words (pad256 m))))"

section \<open>HMAC as \<^verbatim>\<open>crypto-js\<close> computes it\<close>

text \<open>
  \<^verbatim>\<open>HmacSHA256(message, key)\<close> accepts a key that is either a string, which it parses as
  UTF-8, or a \<^verbatim>\<open>WordArray\<close> (the raw bytes of an earlier digest), which it uses as it is.
  The result is a \<^verbatim>\<open>WordArray\<close>.
\<close>

datatype hmac_key = KeyString string | KeyWordArray "byte list"

fun key_bytes :: "hmac_key \<Rightarrow> byte list" where
  "key_bytes (KeyString s) = Utf8_parse s"
| "key_bytes (KeyWordArray ws) = ws"

definition HMAC_block_key :: "byte list \<Rightarrow> byte list" where
  "HMAC_block_key k =
     (let k' = (if length k > 64 then SHA256 k else k)
      in k' @ replicate (64 - length k') 0)"

definition HmacSHA256 :: "string \<Rightarrow> hmac_key \<Rightarrow> byte list" where
  "HmacSHA256 message key =
     (let k = HMAC_block_key (key_bytes key);
          oKey = map (\<lambda>b. b XOR 0x5c) k;
          iKey = map (\<lambda>b. b XOR 0x36) k;
          innerHash = SHA256 (iKey @ Utf8_parse message)
      in SHA256 (oKey @ innerHash))"

text \<open>\<^verbatim>\<open>WordArray.toString()\<close>: two lowercase hexadecimal digits per byte.\<close>

definition hex_digit :: "nat \<Rightarrow> char" where
  "hex_digit n = ''0123456789abcdef'' ! (n mod 16)"

definition Hex_stringify :: "byte list \<Rightarrow> string" where
  "Hex_stringify bs = concat (map (\<lambda>b. [hex_digit (unat b div 16), hex_digit (unat b mod 16)]) bs)"

section \<open>The signer\<close>

text \<open>
  \<^verbatim>\<open>getSignatureKey\<close>: the running value starts as the string \<^verbatim>\<open>`IW1${key}`\<close>; the
  \<^verbatim>\<open>forEach\<close> replaces it by \<^verbatim>\<open>HmacSHA256(p, signature)\<close> for each parameter in turn.
\<close>

definition getSignatureKey :: "string \<Rightarrow> string list \<Rightarrow> string" where
  "getSignatureKey key params =
     (let signature = foldl (\<lambda>signature p. KeyWordArray (HmacSHA256 p signature))
                            (KeyString (''IW1'' @ key)) params
      in Hex_stringify (HmacSHA256 ''iw1_request'' signature))"

section \<open>JavaScript string operations used by the program\<close>

text \<open>\<^verbatim>\<open>s.substring(start, end)\<close>: both indices are clamped to the length and swapped if needed.\<close>

definition substring :: "string \<Rightarrow> nat \<Rightarrow> nat \<Rightarrow> string" where
  "substring s start end' =
     (let a = min start (length s); b = min end' (length s)
      in take (max a b - min a b) (drop (min a b) s))"

text \<open>\<^verbatim>\<open>s.slice(start, end)\<close>: a negative index counts from the end; an empty range gives the empty string.\<close>

definition slice :: "string \<Rightarrow> int \<Rightarrow> int \<Rightarrow> string" where
  "slice s start end' =
     (let len = int (length s);
          from = (if start < 0 then max (len + start) 0 else min start len);
          to = (if end' < 0 then max (len + end') 0 else min end' len)
      in take (nat (to - from)) (drop (nat from) s))"

text \<open>
  \<^verbatim>\<open>s.replace(pattern, replacement)\<close> with a string pattern: the leftmost occurrence of the
  pattern, and only that one, is replaced. (The replacement is taken literally; the
  program's replacement, the empty string, has no \<^verbatim>\<open>$\<close> escapes.)
\<close>

fun String_replace :: "string \<Rightarrow> string \<Rightarrow> string \<Rightarrow> string" where
  "String_replace [] pat rep = (if pat = [] then rep else [])"
| "String_replace (c # cs) pat rep =
     (if take (length pat) (c # cs) = pat then rep @ drop (length pat) (c # cs)
      else c # String_replace cs pat rep)"

text \<open>\<^verbatim>\<open>s.replace(/c/g, replacement)\<close> for a one-character pattern: every occurrence is replaced.\<close>

definition replace_all_char :: "string \<Rightarrow> char \<Rightarrow> string \<Rightarrow> string" where
  "replace_all_char s c rep = concat (map (\<lambda>x. if x = c then rep else [x]) s)"

text \<open>\<^verbatim>\<open>s.split(c)\<close> for a one-character separator.\<close>

fun split :: "string \<Rightarrow> char \<Rightarrow> string list" where
  "split [] sep = [[]]"
| "split (c # cs) sep =
     (if c = sep then [] # split cs sep
      else (case split cs sep of p # ps \<Rightarrow> (c # p) # ps | [] \<Rightarrow> [[c]]))"

text \<open>Decimal digits of a natural number, and \<^verbatim>\<open>padStart(w, '0')\<close>.\<close>

definition digit_char :: "nat \<Rightarrow> char" where
  "digit_char n = ''0123456789'' ! (n mod 10)"

fun decimal :: "nat \<Rightarrow> string" where
  "decimal n = (if n < 10 then [digit_char n] else decimal (n div 10) @ [digit_char (n mod 10)])"

declare decimal.simps [simp del]

definition padStart0 :: "nat \<Rightarrow> string \<Rightarrow> string" where
  "padStart0 w s = replicate (w - length s) CHR ''0'' @ s"

definition pad_decimal :: "nat \<Rightarrow> nat \<Rightarrow> string" where
  "pad_decimal w n = padStart0 w (decimal n)"

section \<open>The clock: \<^verbatim>\<open>new Date().toISOString()\<close>\<close>

text \<open>
  A \<^verbatim>\<open>Date\<close> is its time value: the milliseconds since 1970-01-01T00:00:00Z, an integer.
  The functions below are those of ECMA-262 (section "Time Values and Time Range" and its
  neighbours), all of them in UTC; no time zone enters.
\<close>

definition msPerDay :: int where "msPerDay = 86400000"

definition Day :: "int \<Rightarrow> int" where
  "Day t = t div msPerDay"

definition TimeWithinDay :: "int \<Rightarrow> int" where
  "TimeWithinDay t = t mod msPerDay"

definition DaysInYear :: "int \<Rightarrow> int" where
  "DaysInYear y =
     (if y mod 4 \<noteq> 0 then 365
      else if y mod 100 \<noteq> 0 then 366
      else if y mod 400 \<noteq> 0 then 365
      else 366)"

definition DayFromYear :: "int \<Rightarrow> int" where
  "DayFromYear y =
     365 * (y - 1970) + (y - 1969) div 4 - (y - 1901) div 100 + (y - 1601) div 400"

text \<open>
  ECMA-262 defines \<open>YearFromTime t\<close> as the largest \<open>y\<close> with
  \<open>msPerDay * DayFromYear y \<le> t\<close>. It is computed here from an estimate that is off by
  at most one year; the lemmas \<open>YearFromTime_bounds\<close> and \<open>YearFromTime_largest\<close>
  below show that the result is that largest \<open>y\<close>.
\<close>

definition YearFromTime :: "int \<Rightarrow> int" where
  "YearFromTime t =
     (let d = Day t; y = 1970 + (400 * d) div 146097
      in if DayFromYear (y + 1) \<le> d then y + 1
         else if DayFromYear y \<le> d then y
         else y - 1)"

definition DayWithinYear :: "int \<Rightarrow> int" where
  "DayWithinYear t = Day t - DayFromYear (YearFromTime t)"

definition InLeapYear :: "int \<Rightarrow> int" where
  "InLeapYear t = (if DaysInYear (YearFromTime t) = 366 then 1 else 0)"

definition MonthFromTime :: "int \<Rightarrow> int" where
  "MonthFromTime t =
     (let d = DayWithinYear t; l = InLeapYear t
      in if d < 31 then 0
         else if d < 59 + l then 1
         else if d < 90 + l then 2
         else if d < 120 + l then 3
         else if d < 151 + l then 4
         else if d < 181 + l then 5
         else if d < 212 + l then 6
         else if d < 243 + l then 7
         else if d < 273 + l then 8
         else if d < 304 + l then 9
         else if d < 334 + l then 10
         else 11)"

definition DateFromTime :: "int \<Rightarrow> int" where
  "DateFromTime t =
     (let d = DayWithinYear t; l = InLeapYear t; m = MonthFromTime t
      in if m = 0 then d + 1
         else if m = 1 then d - 30
         else if m = 2 then d - 58 - l
         else if m = 3 then d - 89 - l
         else if m = 4 then d - 119 - l
         else if m = 5 then d - 150 - l
         else if m = 6 then d - 180 - l
         else if m = 7 then d - 211 - l
         else if m = 8 then d - 242 - l
         else if m = 9 then d - 272 - l
         else if m = 10 then d - 303 - l
         else d - 333 - l)"

definition HourFromTime :: "int \<Rightarrow> int" where
  "HourFromTime t = (t div 3600000) mod 24"

definition MinFromTime :: "int \<Rightarrow> int" where
  "MinFromTime t = (t div 60000) mod 60"

definition SecFromTime :: "int \<Rightarrow> int" where
  "SecFromTime t = (t div 1000) mod 60"

definition msFromTime :: "int \<Rightarrow> int" where
  "msFromTime t = t mod 1000"

text \<open>
  \<^verbatim>\<open>toISOString\<close>: \<^verbatim>\<open>YYYY-MM-DDTHH:mm:ss.sssZ\<close>. A year from 0 to 9999 has four digits; any
  other year is written in the expanded form, a sign and six digits.
\<close>

definition year_string :: "int \<Rightarrow> string" where
  "year_string y =
     (if 0 \<le> y \<and> y \<le> 9999 then pad_decimal 4 (nat y)
      else if y < 0 then ''-'' @ pad_decimal 6 (nat (- y))
      else ''+'' @ pad_decimal 6 (nat y))"

definition toISOString :: "int \<Rightarrow> string" where
  "toISOString t =
     year_string (YearFromTime t) @ ''-'' @ pad_decimal 2 (nat (MonthFromTime t + 1)) @ ''-'' @
     pad_decimal 2 (nat (DateFromTime t)) @ ''T'' @ pad_decimal 2 (nat (HourFromTime t)) @ '':'' @
     pad_decimal 2 (nat (MinFromTime t)) @ '':'' @ pad_decimal 2 (nat (SecFromTime t)) @ ''.'' @
     pad_decimal 3 (nat (msFromTime t)) @ ''Z''"

section \<open>\<^verbatim>\<open>getDateTime\<close>\<close>

datatype js_error = TypeError | URIError

text \<open>
  \<^verbatim>\<open>parts[1]\<close> is \<^verbatim>\<open>undefined\<close> when the split gives fewer than two parts, and calling
  \<^verbatim>\<open>replace\<close> on it throws a \<^verbatim>\<open>TypeError\<close>. The argument is the time value that
  \<^verbatim>\<open>new Date()\<close> reads from the clock.
\<close>

definition getDateTime :: "int \<Rightarrow> js_error + string" where
  "getDateTime now =
     (case split (toISOString now) CHR ''T'' of
        p0 # p1 # _ \<Rightarrow>
          (let date = replace_all_char p0 CHR ''-'' '''';
               time = substring (replace_all_char p1 CHR '':'' '''') 0 6
           in Inr (date @ time))
      | _ \<Rightarrow> Inl TypeError)"

section \<open>\<^verbatim>\<open>getAuthorization\<close>\<close>

text \<open>
  \<^verbatim>\<open>crypto.randomBytes(n)\<close> reads \<open>n\<close> bytes from the system's random source, modelled as
  an arbitrary stream of bytes. \<^verbatim>\<open>Buffer.toString('hex')\<close> writes two lowercase hexadecimal
  digits per byte.
\<close>

definition randomBytes :: "nat \<Rightarrow> (nat \<Rightarrow> byte) \<Rightarrow> byte list" where
  "randomBytes n rnd = map rnd [0..<n]"

definition Buffer_toString_hex :: "byte list \<Rightarrow> string" where
  "Buffer_toString_hex bs =
     concat (map (\<lambda>b. [hex_digit (unat b div 16), hex_digit (unat b mod 16)]) bs)"

record ApiKey =
  key :: string
  secret :: string

record auth_args =
  host :: string
  apiKey :: ApiKey
  engineHost :: string

text \<open>The locals \<^verbatim>\<open>path\<close>, \<^verbatim>\<open>nonce\<close> and \<^verbatim>\<open>method\<close> of \<^verbatim>\<open>getAuthorization\<close>
  (the last one under the name \<open>method_path\<close>).\<close>

definition path :: string where
  "path = ''/ai.inworld.engine.WorldEngine/GenerateToken''"

definition nonce :: "(nat \<Rightarrow> byte) \<Rightarrow> string" where
  "nonce rnd = slice (Buffer_toString_hex (randomBytes 16 rnd)) 1 12"

definition method_path :: string where
  "method_path = substring path 1 (length path)"

text \<open>
  \<^verbatim>\<open>getAuthorization\<close> reads the clock (\<open>now\<close>) and the random source (\<open>rnd\<close>); both are
  arguments of the model. An exception of \<^verbatim>\<open>getDateTime\<close> propagates.
\<close>

definition getAuthorization :: "auth_args \<Rightarrow> int \<Rightarrow> (nat \<Rightarrow> byte) \<Rightarrow> js_error + string" where
  "getAuthorization a now rnd =
     (case getDateTime now of
        Inl e \<Rightarrow> Inl e
      | Inr datetime \<Rightarrow>
          (let signature = getSignatureKey (secret (apiKey a))
                 [datetime, String_replace (engineHost a) '':443'' '''', method_path, nonce rnd]
           in Inr (''IW1-HMAC-SHA256 ApiKey='' @ key (apiKey a) @ '',DateTime='' @ datetime @
                   '',Nonce='' @ nonce rnd @ '',Signature='' @ signature)))"

section \<open>\<^verbatim>\<open>generateAuthHeader\<close> and the request of \<^verbatim>\<open>getJwtToken\<close>\<close>

text \<open>
  \<^verbatim>\<open>process.env\<close> is a map from names to strings. \<^verbatim>\<open>process.env.X || d\<close> is \<open>d\<close> when
  the variable is unset or empty.
\<close>

type_synonym env = "string \<rightharpoonup> string"

definition env_or :: "env \<Rightarrow> string \<Rightarrow> string \<Rightarrow> string" where
  "env_or e name d = (case e name of None \<Rightarrow> d | Some v \<Rightarrow> if v = [] then d else v)"

definition generateAuthHeader :: "env \<Rightarrow> int \<Rightarrow> (nat \<Rightarrow> byte) \<Rightarrow> js_error + string" where
  "generateAuthHeader e now rnd =
     getAuthorization
       \<lparr>host = env_or e ''INWORLD_HOST'' ''api.inworld.ai'',
        apiKey = \<lparr>key = env_or e ''INWORLD_KEY'' '''', secret = env_or e ''INWORLD_SECRET'' ''''\<rparr>,
        engineHost = env_or e ''INWORLD_ENGINE_HOST'' ''api-engine.inworld.ai''\<rparr>
       now rnd"

text \<open>
  What \<^verbatim>\<open>getJwtToken\<close> hands to \<^verbatim>\<open>axios.post\<close>: the URL, the JSON body and the two
  headers. The network call itself and its response are outside the model.
\<close>

record token_request =
  url :: string
  body_key :: string
  body_resources :: "string list"
  header_Authorization :: string
  header_Content_Type :: string

definition getJwtToken_request :: "env \<Rightarrow> int \<Rightarrow> (nat \<Rightarrow> byte) \<Rightarrow> js_error + token_request" where
  "getJwtToken_request e now rnd =
     (case generateAuthHeader e now rnd of
        Inl err \<Rightarrow> Inl err
      | Inr authHeader \<Rightarrow>
          Inr \<lparr>url = ''https://'' @ env_or e ''INWORLD_HOST'' ''api.inworld.ai'' @
                       ''/auth/v1/tokens/token:generate'',
               body_key = env_or e ''INWORLD_KEY'' '''',
               body_resources = [env_or e ''INWORLD_WORKSPACE'' ''workspaces/default-workspace''],
               header_Authorization = authHeader,
               header_Content_Type = ''application/json''\<rparr>)"

section \<open>\<^verbatim>\<open>getSignatureKey\<close> on JavaScript strings\<close>













section \<open>The specification's reference definitions\<close>

text \<open>
  HMAC as the specification names it (RFC 2104 over SHA-256, block size 64): key and
  message are raw bytes.
\<close>

definition spec_HMAC_SHA256 :: "byte list \<Rightarrow> byte list \<Rightarrow> byte list" where
  "spec_HMAC_SHA256 k m =
     (let k0 = (if 64 < length k then SHA256 k else k);
          kb = k0 @ replicate (64 - length k0) 0
      in SHA256 (map (\<lambda>b. b XOR 0x5c) kb @ SHA256 (map (\<lambda>b. b XOR 0x36) kb @ m)))"

text \<open>
  The reference chain of the specification: \<open>v0\<close> is the concatenation \<^verbatim>\<open>"IW1" + s\<close>, each
  \<open>v\<^sub>i\<close> is the HMAC of \<open>p\<^sub>i\<close> under the key \<open>v\<^sub>i\<^sub>-\<^sub>1\<close> taken as raw bytes, and the result is
  the HMAC of \<^verbatim>\<open>"iw1_request"\<close> under \<open>v4\<close>, in lowercase hexadecimal.
\<close>

definition spec_signature :: "string \<Rightarrow> string \<Rightarrow> string \<Rightarrow> string \<Rightarrow> string \<Rightarrow> string" where
  "spec_signature s p1 p2 p3 p4 =
     (let v0 = Utf8_parse (''IW1'' @ s);
          v1 = spec_HMAC_SHA256 v0 (Utf8_parse p1);
          v2 = spec_HMAC_SHA256 v1 (Utf8_parse p2);
          v3 = spec_HMAC_SHA256 v2 (Utf8_parse p3);
          v4 = spec_HMAC_SHA256 v3 (Utf8_parse p4)
      in Hex_stringify (spec_HMAC_SHA256 v4 (Utf8_parse ''iw1_request'')))"

text \<open>The host rule as the specification words it: a trailing \<^verbatim>\<open>:443\<close> is cut off, nothing else.\<close>

definition endsWith :: "string \<Rightarrow> string \<Rightarrow> bool" where
  "endsWith s suf = (length suf \<le> length s \<and> drop (length s - length suf) s = suf)"

definition spec_strip_port :: "string \<Rightarrow> string" where
  "spec_strip_port h = (if endsWith h '':443'' then take (length h - 4) h else h)"

text \<open>\<^verbatim>\<open>s.includes(pat)\<close>: the pattern occurs somewhere in the string.\<close>

fun includes_str :: "string \<Rightarrow> string \<Rightarrow> bool" where
  "includes_str [] pat = (pat = [])"
| "includes_str (c # cs) pat = (take (length pat) (c # cs) = pat \<or> includes_str cs pat)"

section \<open>Facts about the hash and the encodings\<close>

lemma length_word_to_bytes: "length (word_to_bytes w) = 4"
  by (simp add: word_to_bytes_def)

lemma length_state_bytes: "length (state_bytes H) = 32"
  by (cases H) (simp add: length_word_to_bytes)

lemma length_SHA256: "length (SHA256 m) = 32"
  by (simp add: SHA256_def length_state_bytes)

lemma length_HmacSHA256: "length (HmacSHA256 m k) = 32"
  by (simp add: HmacSHA256_def Let_def length_SHA256)

lemma hex_digit_lower: "hex_digit n \<in> set ''0123456789abcdef''"
proof -
  have "n mod 16 < length ''0123456789abcdef''" by simp
  then show ?thesis unfolding hex_digit_def by (rule nth_mem)
qed

lemma length_Hex_stringify: "length (Hex_stringify bs) = 2 * length bs"
  by (induction bs) (simp_all add: Hex_stringify_def)

lemma set_Hex_stringify: "set (Hex_stringify bs) \<subseteq> set ''0123456789abcdef''"
  using hex_digit_lower by (induction bs) (simp_all add: Hex_stringify_def)

text \<open>The library's HMAC is the specification's HMAC on the bytes of its two arguments.\<close>

lemma HmacSHA256_spec: "HmacSHA256 m k = spec_HMAC_SHA256 (key_bytes k) (Utf8_parse m)"
  by (simp add: HmacSHA256_def spec_HMAC_SHA256_def HMAC_block_key_def Let_def)

lemma getSignatureKey_format:
  "length (getSignatureKey s ps) = 64 \<and> set (getSignatureKey s ps) \<subseteq> set ''0123456789abcdef''"
  unfolding getSignatureKey_def Let_def
  using set_Hex_stringify by (simp add: length_Hex_stringify length_HmacSHA256)

text \<open>The model of SHA-256 on the test vector \<^verbatim>\<open>"abc"\<close> of FIPS 180-4.\<close>

lemma SHA256_abc:
  "Hex_stringify (SHA256 (Utf8_parse ''abc'')) =
     ''ba7816bf8f01cfea414140de5dae2223b00361a396177a9cb410ff61f20015ad''"
  by code_simp

text \<open>
  The model of HMAC on test case 2 of RFC 4231 (key \<^verbatim>\<open>"Jefe"\<close>): the inner hash, the
  outer hash, and the two together.
\<close>

lemma HmacSHA256_rfc4231_inner:
  "SHA256 (map (\<lambda>b. b XOR 0x36) (HMAC_block_key (Utf8_parse ''Jefe'')) @
           Utf8_parse ''what do ya want for nothing?'') =
   [162, 228, 133, 134, 61, 39, 249, 216, 100, 172, 141, 128, 36, 50, 161, 237,
    71, 125, 140, 76, 111, 52, 157, 22, 212, 231, 233, 23, 198, 41, 202, 215]"
  by code_simp

lemma HmacSHA256_rfc4231_outer:
  "Hex_stringify (SHA256 (map (\<lambda>b. b XOR 0x5c) (HMAC_block_key (Utf8_parse ''Jefe'')) @
   [162, 228, 133, 134, 61, 39, 249, 216, 100, 172, 141, 128, 36, 50, 161, 237,
    71, 125, 140, 76, 111, 52, 157, 22, 212, 231, 233, 23, 198, 41, 202, 215])) =
   ''5bdcc146bf60754e6a042426089575c75a003f089d2739839dec58b964ec3843''"
  by code_simp

lemma HmacSHA256_rfc4231:
  "Hex_stringify (HmacSHA256 ''what do ya want for nothing?'' (KeyString ''Jefe'')) =
     ''5bdcc146bf60754e6a042426089575c75a003f089d2739839dec58b964ec3843''"
  by (simp only: HmacSHA256_def Let_def key_bytes.simps
        HmacSHA256_rfc4231_inner HmacSHA256_rfc4231_outer)

section \<open>Integer division\<close>

lemma int_div_bounds:
  fixes n k :: int
  assumes "0 < k"
  shows "k * (n div k) \<le> n" and "n < k * (n div k) + k"
  using mult_div_mod_eq [of k n] pos_mod_bound [OF assms, of n] pos_mod_sign [OF assms, of n]
  by linarith+

lemma int_div_step:
  fixes n k :: int
  assumes "0 < k"
  shows "(n + 1) div k = n div k + (if (n + 1) mod k = 0 then 1 else 0)"
proof -
  define q where "q = n div k"
  define r where "r = n mod k"
  have n: "n = k * q + r" by (simp add: q_def r_def)
  have r: "0 \<le> r" "r < k" using assms by (simp_all add: r_def)
  show ?thesis
  proof (cases "r + 1 = k")
    case True
    then have eq: "n + 1 = k * (q + 1) + 0" using n by (simp add: algebra_simps)
    have "(n + 1) div k = q + 1" by (rule int_div_pos_eq [OF eq]) (use assms in simp_all)
    moreover have "(n + 1) mod k = 0" by (rule int_mod_pos_eq [OF eq]) (use assms in simp_all)
    ultimately show ?thesis by (simp add: q_def)
  next
    case False
    then have lt: "r + 1 < k" using r by simp
    have eq: "n + 1 = k * q + (r + 1)" using n by simp
    have "(n + 1) div k = q" by (rule int_div_pos_eq [OF eq]) (use r lt in simp_all)
    moreover have "(n + 1) mod k = r + 1" by (rule int_mod_pos_eq [OF eq]) (use r lt in simp_all)
    ultimately show ?thesis using r by (simp add: q_def)
  qed
qed

lemma mod_shift: "((y::int) - k * c) mod k = y mod k"
  by (metis mod_mult_self1_is_0 mod_diff_right_eq diff_zero)

lemma int_div_step_shifted:
  fixes y k c m :: int
  assumes "0 < k" and "m = k * c + 1"
  shows "(y + 1 - m) div k = (y - m) div k + (if y mod k = 0 then 1 else 0)"
proof -
  have e: "y + 1 - m = (y - m) + 1" by simp
  have "(y - m) + 1 = y - k * c" using assms(2) by simp
  then have m: "((y - m) + 1) mod k = y mod k" using mod_shift [of y k c] by metis
  have "((y - m) + 1) div k = (y - m) div k + (if ((y - m) + 1) mod k = 0 then 1 else 0)"
    using assms(1) by (rule int_div_step)
  then show ?thesis unfolding e m .
qed

lemma mod_0_trans:
  fixes y a b :: int
  assumes "a dvd b" and "y mod b = 0"
  shows "y mod a = 0"
proof -
  from assms(2) have "b dvd y" by (simp add: dvd_eq_mod_eq_0)
  with assms(1) have "a dvd y" by (rule dvd_trans)
  then show ?thesis by simp
qed

section \<open>The calendar functions\<close>

text \<open>A year has \<open>DaysInYear\<close> days: \<open>DayFromYear\<close> steps by it.\<close>

lemma DayFromYear_Suc: "DayFromYear (y + 1) = DayFromYear y + DaysInYear y"
proof -
  have a: "(y + 1 - 1969) div 4 = (y - 1969) div 4 + (if y mod 4 = 0 then 1 else 0)"
    by (rule int_div_step_shifted [where c = 492]) simp_all
  have b: "(y + 1 - 1901) div 100 = (y - 1901) div 100 + (if y mod 100 = 0 then 1 else 0)"
    by (rule int_div_step_shifted [where c = 19]) simp_all
  have c: "(y + 1 - 1601) div 400 = (y - 1601) div 400 + (if y mod 400 = 0 then 1 else 0)"
    by (rule int_div_step_shifted [where c = 4]) simp_all
  have d1: "y mod 100 = 0 \<Longrightarrow> y mod 4 = 0" by (rule mod_0_trans [of 4 100]) simp_all
  have d2: "y mod 400 = 0 \<Longrightarrow> y mod 100 = 0" by (rule mod_0_trans [of 100 400]) simp_all
  have "DayFromYear (y + 1) =
          365 * (y + 1 - 1970) + (y + 1 - 1969) div 4 - (y + 1 - 1901) div 100 + (y + 1 - 1601) div 400"
    unfolding DayFromYear_def ..
  also have "\<dots> = DayFromYear y + DaysInYear y"
    unfolding a b c DayFromYear_def DaysInYear_def using d1 d2 by auto
  finally show ?thesis .
qed

lemma DaysInYear_bounds: "365 \<le> DaysInYear y" "DaysInYear y \<le> 366"
  by (simp_all add: DaysInYear_def)

lemma DayFromYear_mono: "y \<le> y' \<Longrightarrow> DayFromYear y \<le> DayFromYear y'"
proof (induction y' rule: int_ge_induct)
  case base
  show ?case by simp
next
  case (step i)
  then show ?case using DayFromYear_Suc [of i] DaysInYear_bounds(1) [of i] by linarith
qed

text \<open>\<open>DayFromYear\<close> stays within two days of 365.2425 days per year.\<close>

lemma DayFromYear_approx:
  "146097 * z - 287811697 \<le> 400 * DayFromYear z"
  "400 * DayFromYear z \<le> 146097 * z - 287810497"
proof -
  define a where "a = (z - 1969) div 4"
  define b where "b = (z - 1901) div 100"
  define c where "c = (z - 1601) div 400"
  have a: "4 * a \<le> z - 1969" "z - 1969 < 4 * a + 4"
    unfolding a_def by (rule int_div_bounds; simp)+
  have b: "100 * b \<le> z - 1901" "z - 1901 < 100 * b + 100"
    unfolding b_def by (rule int_div_bounds; simp)+
  have c: "400 * c \<le> z - 1601" "z - 1601 < 400 * c + 400"
    unfolding c_def by (rule int_div_bounds; simp)+
  have "DayFromYear z = 365 * (z - 1970) + a - b + c"
    unfolding DayFromYear_def a_def b_def c_def ..
  then have D: "400 * DayFromYear z = 146000 * z - 287620000 + 400 * a - 400 * b + 400 * c"
    by simp
  show "146097 * z - 287811697 \<le> 400 * DayFromYear z"
    unfolding D using a b c by linarith
  show "400 * DayFromYear z \<le> 146097 * z - 287810497"
    unfolding D using a b c by linarith
qed

text \<open>\<open>YearFromTime t\<close> is the year whose first day is the last one not after \<open>Day t\<close>.\<close>

lemma YearFromTime_bounds:
  "DayFromYear (YearFromTime t) \<le> Day t" "Day t < DayFromYear (YearFromTime t + 1)"
proof -
  define d where "d = Day t"
  define q where "q = (400 * d) div 146097"
  define y where "y = 1970 + q"
  have q: "146097 * q \<le> 400 * d" "400 * d < 146097 * q + 146097"
    unfolding q_def by (rule int_div_bounds; simp)+
  have y: "q = y - 1970" by (simp add: y_def)
  have q': "146097 * y - 287811090 \<le> 400 * d" "400 * d < 146097 * y - 287664993"
    using q unfolding y by simp_all
  have "400 * DayFromYear (y - 1) \<le> 146097 * (y - 1) - 287810497"
    by (rule DayFromYear_approx(2))
  then have "400 * DayFromYear (y - 1) \<le> 146097 * y - 287956594"
    by (simp add: algebra_simps)
  then have lo: "DayFromYear (y - 1) \<le> d"
    using q' by linarith
  have "146097 * (y + 1 + 1) - 287811697 \<le> 400 * DayFromYear (y + 1 + 1)"
    by (rule DayFromYear_approx(1))
  then have "146097 * y - 287519503 \<le> 400 * DayFromYear (y + 1 + 1)"
    by (simp add: algebra_simps)
  then have hi: "d < DayFromYear (y + 1 + 1)"
    using q' by linarith
  have Y: "YearFromTime t =
             (if DayFromYear (y + 1) \<le> d then y + 1
              else if DayFromYear y \<le> d then y
              else y - 1)"
    unfolding YearFromTime_def Let_def d_def q_def y_def ..
  show "DayFromYear (YearFromTime t) \<le> Day t"
    unfolding Y d_def [symmetric] using lo by (simp split: if_splits)
  show "Day t < DayFromYear (YearFromTime t + 1)"
    unfolding Y d_def [symmetric] using hi by (simp split: if_splits)
qed

lemma YearFromTime_largest: "DayFromYear y \<le> Day t \<longleftrightarrow> y \<le> YearFromTime t"
proof
  assume "DayFromYear y \<le> Day t"
  show "y \<le> YearFromTime t"
  proof (rule ccontr)
    assume "\<not> y \<le> YearFromTime t"
    then have "YearFromTime t + 1 \<le> y" by simp
    then have "DayFromYear (YearFromTime t + 1) \<le> DayFromYear y" by (rule DayFromYear_mono)
    with \<open>DayFromYear y \<le> Day t\<close> YearFromTime_bounds(2) [of t] show False by linarith
  qed
next
  assume "y \<le> YearFromTime t"
  then have "DayFromYear y \<le> DayFromYear (YearFromTime t)" by (rule DayFromYear_mono)
  with YearFromTime_bounds(1) [of t] show "DayFromYear y \<le> Day t" by linarith
qed

lemma DayWithinYear_bounds:
  "0 \<le> DayWithinYear t" "DayWithinYear t < 365 + InLeapYear t"
proof -
  show "0 \<le> DayWithinYear t"
    unfolding DayWithinYear_def using YearFromTime_bounds(1) [of t] by simp
  have "DaysInYear (YearFromTime t) = 365 + InLeapYear t"
    by (simp add: InLeapYear_def DaysInYear_def)
  then show "DayWithinYear t < 365 + InLeapYear t"
    unfolding DayWithinYear_def
    using YearFromTime_bounds(2) [of t] DayFromYear_Suc [of "YearFromTime t"] by linarith
qed

lemma InLeapYear_cases: "InLeapYear t = 0 \<or> InLeapYear t = 1"
  by (simp add: InLeapYear_def)

lemma MonthFromTime_bounds: "0 \<le> MonthFromTime t" "MonthFromTime t \<le> 11"
  by (simp_all add: MonthFromTime_def Let_def)

lemma DateFromTime_bounds: "1 \<le> DateFromTime t" "DateFromTime t \<le> 31"
proof -
  define d where "d = DayWithinYear t"
  define l where "l = InLeapYear t"
  have d: "0 \<le> d" "d < 365 + l" unfolding d_def l_def by (rule DayWithinYear_bounds)+
  have l: "l = 0 \<or> l = 1" unfolding l_def by (rule InLeapYear_cases)
  have M: "MonthFromTime t =
      (if d < 31 then 0 else if d < 59 + l then 1 else if d < 90 + l then 2
       else if d < 120 + l then 3 else if d < 151 + l then 4 else if d < 181 + l then 5
       else if d < 212 + l then 6 else if d < 243 + l then 7 else if d < 273 + l then 8
       else if d < 304 + l then 9 else if d < 334 + l then 10 else 11)"
    unfolding MonthFromTime_def Let_def d_def l_def ..
  have D: "DateFromTime t =
      (let m = MonthFromTime t
       in if m = 0 then d + 1 else if m = 1 then d - 30 else if m = 2 then d - 58 - l
          else if m = 3 then d - 89 - l else if m = 4 then d - 119 - l
          else if m = 5 then d - 150 - l else if m = 6 then d - 180 - l
          else if m = 7 then d - 211 - l else if m = 8 then d - 242 - l
          else if m = 9 then d - 272 - l else if m = 10 then d - 303 - l
          else d - 333 - l)"
    unfolding DateFromTime_def Let_def d_def l_def ..
  show "1 \<le> DateFromTime t"
    unfolding D M Let_def using d l by (auto split: if_splits)
  show "DateFromTime t \<le> 31"
    unfolding D M Let_def using d l by (auto split: if_splits)
qed

text \<open>The fields of the time of day, with the day number, give the time value back.\<close>

lemma time_value_decomposition:
  "t = msPerDay * Day t + 3600000 * HourFromTime t + 60000 * MinFromTime t +
       1000 * SecFromTime t + msFromTime t"
proof -
  define s where "s = t div 1000"
  define m where "m = t div 60000"
  define h where "h = t div 3600000"
  have ms: "m = s div 60" unfolding m_def s_def by (simp add: zdiv_zmult2_eq [symmetric])
  have hm: "h = m div 60" unfolding h_def m_def by (simp add: zdiv_zmult2_eq [symmetric])
  have dh: "Day t = h div 24"
    unfolding Day_def msPerDay_def h_def by (simp add: zdiv_zmult2_eq [symmetric])
  have 1: "t = 1000 * s + msFromTime t" unfolding s_def msFromTime_def by simp
  have 2: "s = 60 * m + SecFromTime t" unfolding ms SecFromTime_def s_def [symmetric] by simp
  have 3: "m = 60 * h + MinFromTime t" unfolding hm MinFromTime_def m_def [symmetric] by simp
  have 4: "h = 24 * Day t + HourFromTime t" unfolding dh HourFromTime_def h_def [symmetric] by simp
  show ?thesis using 1 2 3 4 by (simp add: msPerDay_def)
qed

lemma DayFromYear_0: "DayFromYear 0 = - 719528"
  by (simp add: DayFromYear_def)

lemma DayFromYear_10000: "DayFromYear 10000 = 2932897"
  by (simp add: DayFromYear_def)

text \<open>The years 0 to 9999 are the instants from 0000-01-01T00:00:00Z up to 9999-12-31T23:59:59.999Z.\<close>

lemma YearFromTime_range:
  "(0 \<le> YearFromTime t \<and> YearFromTime t \<le> 9999) \<longleftrightarrow>
   (- 62167219200000 \<le> t \<and> t < 253402300800000)"
proof -
  define d where "d = t div 86400000"
  have d: "86400000 * d \<le> t" "t < 86400000 * d + 86400000"
    unfolding d_def by (rule int_div_bounds; simp)+
  have D: "Day t = d" by (simp add: Day_def msPerDay_def d_def)
  have lo: "0 \<le> YearFromTime t \<longleftrightarrow> - 719528 \<le> d"
    using YearFromTime_largest [of 0 t] unfolding DayFromYear_0 D by simp
  have "10000 \<le> YearFromTime t \<longleftrightarrow> 2932897 \<le> d"
    using YearFromTime_largest [of 10000 t] unfolding DayFromYear_10000 D by simp
  then have hi: "YearFromTime t \<le> 9999 \<longleftrightarrow> d < 2932897" by linarith
  have "- 719528 \<le> d \<longleftrightarrow> - 62167219200000 \<le> t" using d by linarith
  moreover have "d < 2932897 \<longleftrightarrow> t < 253402300800000" using d by linarith
  ultimately show ?thesis using lo hi by simp
qed

section \<open>Facts about the string operations\<close>

lemma digit_char_digit: "digit_char n \<in> set ''0123456789''"
proof -
  have "n mod 10 < length ''0123456789''" by simp
  then show ?thesis unfolding digit_char_def by (rule nth_mem)
qed

lemma set_decimal: "set (decimal n) \<subseteq> set ''0123456789''"
proof (induction n rule: decimal.induct)
  case (1 n)
  show ?case
  proof (cases "n < 10")
    case True
    then show ?thesis using digit_char_digit [of n] by (subst decimal.simps) simp
  next
    case False
    then show ?thesis
      using 1 digit_char_digit [of "n mod 10"] by (subst decimal.simps) simp
  qed
qed

lemma length_decimal_1: "n < 10 \<Longrightarrow> length (decimal n) = 1"
  by (subst decimal.simps) simp

lemma length_decimal_2: "n < 100 \<Longrightarrow> length (decimal n) \<le> 2"
  by (subst decimal.simps) (simp add: length_decimal_1)

lemma length_decimal_3: "n < 1000 \<Longrightarrow> length (decimal n) \<le> 3"
  using length_decimal_2 [of "n div 10"] by (subst decimal.simps) simp

lemma length_decimal_4: "n < 10000 \<Longrightarrow> length (decimal n) \<le> 4"
  using length_decimal_3 [of "n div 10"] by (subst decimal.simps) simp

lemma length_pad_decimal: "length (pad_decimal w n) = max w (length (decimal n))"
  by (simp add: pad_decimal_def padStart0_def)

lemma set_pad_decimal: "set (pad_decimal w n) \<subseteq> set ''0123456789''"
  using set_decimal [of n] by (auto simp: pad_decimal_def padStart0_def)

lemma length_pad_decimal_2: "n < 100 \<Longrightarrow> length (pad_decimal 2 n) = 2"
  using length_decimal_2 [of n] by (simp add: length_pad_decimal)

lemma length_pad_decimal_4: "n < 10000 \<Longrightarrow> length (pad_decimal 4 n) = 4"
  using length_decimal_4 [of n] by (simp add: length_pad_decimal)

lemma pad_decimal_no: "c \<notin> set ''0123456789'' \<Longrightarrow> c \<notin> set (pad_decimal w n)"
  using set_pad_decimal [of w n] by blast

lemma pad_decimal_values:
  "pad_decimal 2 0 = ''00''" "pad_decimal 2 (Suc 0) = ''01''" "pad_decimal 2 1 = ''01''"
  "pad_decimal 4 2025 = ''2025''" "pad_decimal 6 10000 = ''010000''"
  by (simp_all add: pad_decimal_def padStart0_def decimal.simps digit_char_def)

lemma split_no_sep: "sep \<notin> set s \<Longrightarrow> split s sep = [s]"
  by (induction s) auto

lemma split_once: "sep \<notin> set a \<Longrightarrow> sep \<notin> set b \<Longrightarrow> split (a @ sep # b) sep = [a, b]"
  by (induction a) (auto simp: split_no_sep)

lemma replace_all_char_filter: "replace_all_char s c [] = filter (\<lambda>x. x \<noteq> c) s"
  by (induction s) (simp_all add: replace_all_char_def)

lemma filter_absent: "c \<notin> set s \<Longrightarrow> filter (\<lambda>x. x \<noteq> c) s = s"
  by (induction s) auto

lemma filter_pad_decimal:
  "c \<notin> set ''0123456789'' \<Longrightarrow> filter (\<lambda>x. x \<noteq> c) (pad_decimal w n) = pad_decimal w n"
  by (rule filter_absent) (rule pad_decimal_no)

lemma substring_0: "substring s 0 n = take n s"
  by (simp add: substring_def Let_def min_def)

text \<open>\<^verbatim>\<open>replace\<close> with a string pattern: no occurrence, an occurrence at the front, the leftmost one.\<close>

lemma String_replace_absent: "\<not> includes_str h pat \<Longrightarrow> String_replace h pat rep = h"
  by (induction h) auto

lemma String_replace_skip:
  "take (length pat) (c # cs) \<noteq> pat \<Longrightarrow>
   String_replace (c # cs) pat rep = c # String_replace cs pat rep"
  by simp

lemma String_replace_hit: "String_replace (pat @ post) pat rep = rep @ post"
proof (cases "pat @ post")
  case Nil
  then show ?thesis by simp
next
  case (Cons a list)
  have "take (length pat) (pat @ post) = pat" "drop (length pat) (pat @ post) = post"
    by simp_all
  then have "take (length pat) (a # list) = pat" "drop (length pat) (a # list) = post"
    unfolding Cons by simp_all
  then have "String_replace (a # list) pat rep = rep @ post" by simp
  then show ?thesis unfolding Cons .
qed

lemma String_replace_first_gen:
  assumes ov: "\<And>c cs. take (length pat) (c # cs) \<noteq> pat \<Longrightarrow>
                 take (length pat) (c # cs @ pat @ post) \<noteq> pat"
  shows "\<not> includes_str pre pat \<Longrightarrow>
         String_replace (pre @ pat @ post) pat rep = pre @ rep @ post"
proof (induction pre)
  case Nil
  show ?case by (simp add: String_replace_hit)
next
  case (Cons c cs)
  from Cons.prems have n: "take (length pat) (c # cs) \<noteq> pat" and r: "\<not> includes_str cs pat"
    by simp_all
  have "take (length pat) (c # cs @ pat @ post) \<noteq> pat" using n by (rule ov)
  then have "String_replace (c # cs @ pat @ post) pat rep =
               c # String_replace (cs @ pat @ post) pat rep"
    by (rule String_replace_skip)
  then show ?case using Cons.IH [OF r] by simp
qed

text \<open>
  The pattern \<^verbatim>\<open>:443\<close> cannot overlap itself: where it does not start inside \<open>c # cs\<close>, it
  does not start there either when a copy of the pattern follows.
\<close>

lemma port_no_overlap:
  assumes "take (length '':443'') (c # cs) \<noteq> '':443''"
  shows "take (length '':443'') (c # cs @ '':443'' @ post) \<noteq> '':443''"
proof (cases cs)
  case Nil
  then show ?thesis by simp
next
  case (Cons x xs)
  note c1 = this
  show ?thesis
  proof (cases xs)
    case Nil
    then show ?thesis using c1 by simp
  next
    case (Cons y ys)
    note c2 = this
    show ?thesis
    proof (cases ys)
      case Nil
      then show ?thesis using c1 c2 by simp
    next
      case (Cons z zs)
      then show ?thesis using c1 c2 assms by simp
    qed
  qed
qed

text \<open>What the program's \<^verbatim>\<open>replace(':443', '')\<close> does in general: it cuts out the leftmost occurrence.\<close>

lemma String_replace_first:
  "\<not> includes_str pre '':443'' \<Longrightarrow>
   String_replace (pre @ '':443'' @ post) '':443'' rep = pre @ rep @ post"
  by (rule String_replace_first_gen) (rule port_no_overlap)

lemma endsWith_includes: "endsWith h pat \<Longrightarrow> includes_str h pat"
proof -
  have inc: "includes_str (a @ pat) pat" for a
  proof (induction a)
    case Nil
    show ?case by (cases pat) simp_all
  next
    case (Cons x a)
    then show ?case by simp
  qed
  assume "endsWith h pat"
  then have "h = take (length h - length pat) h @ pat"
    unfolding endsWith_def by (metis append_take_drop_id)
  then show ?thesis using inc by metis
qed

section \<open>Facts about \<^verbatim>\<open>getDateTime\<close>\<close>

lemma year_string_no_T: "CHR ''T'' \<notin> set (year_string y)"
  by (simp add: year_string_def pad_decimal_no)

lemma time_fields:
  "nat (MonthFromTime t + 1) < 100" "nat (DateFromTime t) < 100" "nat (HourFromTime t) < 100"
  "nat (MinFromTime t) < 100" "nat (SecFromTime t) < 100" "nat (msFromTime t) < 1000"
  using MonthFromTime_bounds [of t] DateFromTime_bounds [of t]
  by (simp_all add: HourFromTime_def MinFromTime_def SecFromTime_def msFromTime_def nat_less_iff)

text \<open>
  For every time value the split gives two parts, so no \<^verbatim>\<open>TypeError\<close> arises, and the
  result is the year without its minus sign, then month, day, hour, minute and second.
\<close>

lemma getDateTime_eq:
  "getDateTime t =
     Inr (filter (\<lambda>c. c \<noteq> CHR ''-'') (year_string (YearFromTime t)) @
          pad_decimal 2 (nat (MonthFromTime t + 1)) @ pad_decimal 2 (nat (DateFromTime t)) @
          pad_decimal 2 (nat (HourFromTime t)) @ pad_decimal 2 (nat (MinFromTime t)) @
          pad_decimal 2 (nat (SecFromTime t)))"
proof -
  define Y where "Y = year_string (YearFromTime t)"
  define M where "M = pad_decimal 2 (nat (MonthFromTime t + 1))"
  define D where "D = pad_decimal 2 (nat (DateFromTime t))"
  define H where "H = pad_decimal 2 (nat (HourFromTime t))"
  define Mi where "Mi = pad_decimal 2 (nat (MinFromTime t))"
  define S where "S = pad_decimal 2 (nat (SecFromTime t))"
  define ms where "ms = pad_decimal 3 (nat (msFromTime t))"
  define p0 where "p0 = Y @ ''-'' @ M @ ''-'' @ D"
  define p1 where "p1 = H @ '':'' @ Mi @ '':'' @ S @ ''.'' @ ms @ ''Z''"
  have iso: "toISOString t = p0 @ CHR ''T'' # p1"
    by (simp add: toISOString_def p0_def p1_def Y_def M_def D_def H_def Mi_def S_def ms_def)
  have len: "length H = 2" "length Mi = 2" "length S = 2"
    unfolding H_def Mi_def S_def by (rule length_pad_decimal_2, rule time_fields)+
  have "CHR ''T'' \<notin> set p0"
    by (simp add: p0_def Y_def M_def D_def year_string_no_T pad_decimal_no)
  moreover have "CHR ''T'' \<notin> set p1"
    by (simp add: p1_def H_def Mi_def S_def ms_def pad_decimal_no)
  ultimately have sp: "split (toISOString t) CHR ''T'' = [p0, p1]"
    unfolding iso by (rule split_once)
  have date: "filter (\<lambda>c. c \<noteq> CHR ''-'') p0 = filter (\<lambda>c. c \<noteq> CHR ''-'') Y @ M @ D"
    by (simp add: p0_def M_def D_def filter_pad_decimal)
  have "filter (\<lambda>c. c \<noteq> CHR '':'') p1 = H @ Mi @ S @ ''.'' @ ms @ ''Z''"
    by (simp add: p1_def H_def Mi_def S_def ms_def filter_pad_decimal)
  then have time: "take 6 (filter (\<lambda>c. c \<noteq> CHR '':'') p1) = H @ Mi @ S"
    using len by simp
  have "getDateTime t = Inr (filter (\<lambda>c. c \<noteq> CHR ''-'') p0 @ take 6 (filter (\<lambda>c. c \<noteq> CHR '':'') p1))"
    by (simp add: getDateTime_def sp replace_all_char_filter substring_0)
  then show ?thesis
    unfolding date time Y_def M_def D_def H_def Mi_def S_def by simp
qed

lemma getDateTime_total: "\<exists>s. getDateTime t = Inr s"
  using getDateTime_eq [of t] by blast

text \<open>Two instants worked out: 2025-01-01T00:00:00Z and 10000-01-01T00:00:00Z.\<close>

lemma fields_2025:
  "YearFromTime 1735689600000 = 2025" "MonthFromTime 1735689600000 = 0"
  "DateFromTime 1735689600000 = 1" "HourFromTime 1735689600000 = 0"
  "MinFromTime 1735689600000 = 0" "SecFromTime 1735689600000 = 0"
  by (simp_all add: YearFromTime_def MonthFromTime_def DateFromTime_def DayWithinYear_def
       InLeapYear_def DaysInYear_def Day_def msPerDay_def DayFromYear_def Let_def
       HourFromTime_def MinFromTime_def SecFromTime_def)

lemma fields_10000:
  "YearFromTime 253402300800000 = 10000" "MonthFromTime 253402300800000 = 0"
  "DateFromTime 253402300800000 = 1" "HourFromTime 253402300800000 = 0"
  "MinFromTime 253402300800000 = 0" "SecFromTime 253402300800000 = 0"
  by (simp_all add: YearFromTime_def MonthFromTime_def DateFromTime_def DayWithinYear_def
       InLeapYear_def DaysInYear_def Day_def msPerDay_def DayFromYear_def Let_def
       HourFromTime_def MinFromTime_def SecFromTime_def)

lemma getDateTime_2025: "getDateTime 1735689600000 = Inr ''20250101000000''"
  by (simp add: getDateTime_eq fields_2025 year_string_def pad_decimal_values)

section \<open>Facts about \<^verbatim>\<open>getAuthorization\<close>\<close>

lemma length_randomBytes: "length (randomBytes n rnd) = n"
  by (simp add: randomBytes_def)

lemma length_Buffer_toString_hex: "length (Buffer_toString_hex bs) = 2 * length bs"
  by (induction bs) (simp_all add: Buffer_toString_hex_def)

lemma set_Buffer_toString_hex: "set (Buffer_toString_hex bs) \<subseteq> set ''0123456789abcdef''"
  using hex_digit_lower by (induction bs) (simp_all add: Buffer_toString_hex_def)

lemma nonce_eq: "nonce rnd = take 11 (drop 1 (Buffer_toString_hex (randomBytes 16 rnd)))"
  by (simp add: nonce_def slice_def Let_def length_Buffer_toString_hex length_randomBytes)

lemma nonce_zero: "nonce (\<lambda>_. 0) = ''00000000000''"
  by code_simp

lemma method_eq: "method_path = ''ai.inworld.engine.WorldEngine/GenerateToken''"
  by (simp add: method_path_def path_def substring_def)

lemma host_example:
  "String_replace ''api-engine.inworld.ai:443'' '':443'' '''' = ''api-engine.inworld.ai''"
  "String_replace ''api-engine.inworld.ai'' '':443'' '''' = ''api-engine.inworld.ai''"
  by simp_all

lemma getAuthorization_eq:
  "getDateTime now = Inr t \<Longrightarrow>
   getAuthorization a now rnd =
     Inr (''IW1-HMAC-SHA256 ApiKey='' @ key (apiKey a) @ '',DateTime='' @ t @ '',Nonce='' @ nonce rnd @
          '',Signature='' @
          getSignatureKey (secret (apiKey a))
            [t, String_replace (engineHost a) '':443'' '''', method_path, nonce rnd])"
  by (simp add: getAuthorization_def Let_def)

lemma getAuthorization_total: "\<exists>hdr. getAuthorization a now rnd = Inr hdr"
proof -
  obtain t where "getDateTime now = Inr t" using getDateTime_total by blast
  then show ?thesis by (simp add: getAuthorization_def Let_def)
qed

lemma getAuthorization_host:
  "getAuthorization \<lparr>host = h1, apiKey = k, engineHost = e\<rparr> now rnd =
   getAuthorization \<lparr>host = h2, apiKey = k, engineHost = e\<rparr> now rnd"
  by (cases "getDateTime now") (simp_all add: getAuthorization_def)

lemma env_or_other:
  "name \<noteq> name' \<Longrightarrow> env_or (ev(name' \<mapsto> v)) name d = env_or ev name d"
  by (simp add: env_or_def)

lemma env_or_same: "env_or (ev(name \<mapsto> c # cs)) name d = c # cs"
  by (simp add: env_or_def)

lemma generateAuthHeader_host:
  "generateAuthHeader (ev(''INWORLD_HOST'' \<mapsto> h)) now rnd = generateAuthHeader ev now rnd"
proof -
  have k: "env_or (ev(''INWORLD_HOST'' \<mapsto> h)) ''INWORLD_KEY'' '''' = env_or ev ''INWORLD_KEY'' ''''"
    by (rule env_or_other) simp
  have s: "env_or (ev(''INWORLD_HOST'' \<mapsto> h)) ''INWORLD_SECRET'' '''' = env_or ev ''INWORLD_SECRET'' ''''"
    by (rule env_or_other) simp
  have e: "env_or (ev(''INWORLD_HOST'' \<mapsto> h)) ''INWORLD_ENGINE_HOST'' ''api-engine.inworld.ai'' =
           env_or ev ''INWORLD_ENGINE_HOST'' ''api-engine.inworld.ai''"
    by (rule env_or_other) simp
  show ?thesis unfolding generateAuthHeader_def k s e by (rule getAuthorization_host)
qed

text \<open>
  Where \<^verbatim>\<open>engineHost.replace(':443', '')\<close> and the removal of a trailing \<^verbatim>\<open>:443\<close> agree:
  on a host in which \<^verbatim>\<open>:443\<close> does not occur, and on a host whose only occurrence of it
  is its suffix. They part on a host with an earlier occurrence.
\<close>

lemma String_replace_port_suffix:
  "(\<not> includes_str h '':443'' \<longrightarrow>
      String_replace h '':443'' '''' = h \<and> spec_strip_port h = h) \<and>
   (\<not> includes_str pre '':443'' \<longrightarrow>
      String_replace (pre @ '':443'') '':443'' '''' = pre \<and> spec_strip_port (pre @ '':443'') = pre)"
proof -
  have a: "\<not> includes_str h '':443'' \<longrightarrow> String_replace h '':443'' '''' = h"
    using String_replace_absent by blast
  have a': "\<not> includes_str h '':443'' \<longrightarrow> spec_strip_port h = h"
    using endsWith_includes [of h "'':443''"] by (auto simp: spec_strip_port_def)
  have b: "\<not> includes_str pre '':443'' \<longrightarrow> String_replace (pre @ '':443'') '':443'' '''' = pre"
    using String_replace_first [of pre "''''" "''''"] by simp
  have b': "spec_strip_port (pre @ '':443'') = pre"
    by (simp add: spec_strip_port_def endsWith_def)
  from a a' b b' show ?thesis by blast
qed

lemma String_replace_port_inner:
  "String_replace ''a:443b:443'' '':443'' '''' = ''ab:443'' \<and>
   spec_strip_port ''a:443b:443'' = ''a:443b''"
  by (simp add: spec_strip_port_def endsWith_def)

section \<open>Facts about \<^verbatim>\<open>getSignatureKey\<close> on JavaScript strings\<close>



























section \<open>The claims\<close>

subsection \<open>The signature derivation\<close>

text \<open>
  C1. For every secret \<open>s\<close> and every four parameter strings, \<^verbatim>\<open>getSignatureKey\<close> equals the
  reference chain of the specification: \<open>v0\<close> is \<^verbatim>\<open>"IW1" + s\<close>; each \<open>v\<^sub>i\<close> is HMAC-SHA256
  with key \<open>v\<^sub>i\<^sub>-\<^sub>1\<close>, the raw output of the step before, and message \<open>p\<^sub>i\<close>; the result is
  HMAC-SHA256 with key \<open>v4\<close> and message \<^verbatim>\<open>"iw1_request"\<close>, in lowercase hexadecimal.
\<close>

theorem getSignatureKey_reference_chain:
  "getSignatureKey s [p1, p2, p3, p4] = spec_signature s p1 p2 p3 p4"
  by (simp add: getSignatureKey_def spec_signature_def HmacSHA256_spec Let_def)

subsection \<open>The header\<close>

text \<open>
  C2. For every credential key \<open>k\<close>, timestamp \<open>t\<close>, nonce and derived signature, the
  header that \<^verbatim>\<open>getAuthorization\<close> returns is exactly
  \<^verbatim>\<open>IW1-HMAC-SHA256 ApiKey=k,DateTime=t,Nonce=n,Signature=sig\<close>: one space after the scheme,
  commas between the fields, nothing else added.
\<close>

theorem getAuthorization_header_format:
  "getDateTime now = Inr t \<Longrightarrow>
   getAuthorization \<lparr>host = h, apiKey = \<lparr>key = k, secret = s\<rparr>, engineHost = e\<rparr> now rnd =
     Inr (''IW1-HMAC-SHA256 ApiKey='' @ k @ '',DateTime='' @ t @ '',Nonce='' @ nonce rnd @
          '',Signature='' @ getSignatureKey s [t, String_replace e '':443'' '''', method_path, nonce rnd])"
  by (simp add: getAuthorization_def Let_def)

text \<open>The header at 2025-01-01T00:00:00Z, with a random source that gives zero bytes.\<close>

theorem getAuthorization_header_format_witness:
  "getDateTime 1735689600000 = Inr ''20250101000000'' \<and>
   getAuthorization
     \<lparr>host = ''api.inworld.ai'', apiKey = \<lparr>key = ''abc'', secret = ''testsecret''\<rparr>,
      engineHost = ''api-engine.inworld.ai:443''\<rparr> 1735689600000 (\<lambda>_. 0) =
   Inr (''IW1-HMAC-SHA256 ApiKey=abc,DateTime=20250101000000,Nonce=00000000000,Signature='' @
        getSignatureKey ''testsecret''
          [''20250101000000'', ''api-engine.inworld.ai'',
           ''ai.inworld.engine.WorldEngine/GenerateToken'', ''00000000000''])"
  using getAuthorization_header_format [OF getDateTime_2025, of "''api.inworld.ai''" "''abc''"
      "''testsecret''" "''api-engine.inworld.ai:443''" "\<lambda>_. 0"]
  by (simp add: getDateTime_2025 nonce_zero host_example method_eq)

subsection \<open>The host that is signed\<close>

text \<open>
  C3. The specification has \<^verbatim>\<open>getAuthorization\<close> sign \<open>engineHost\<close> with a trailing
  \<^verbatim>\<open>:443\<close> removed and every other host unchanged, and the README names this parameter
  ``Host (without port)''. The code computes it as \<^verbatim>\<open>engineHost.replace(':443', '')\<close>, which
  cuts out the leftmost occurrence of \<^verbatim>\<open>:443\<close> wherever it stands. So the code misses the
  rule: \<^verbatim>\<open>example.com:4430\<close> does not end in \<^verbatim>\<open>:443\<close>, the rule leaves it as it is, and
  \<^verbatim>\<open>getAuthorization\<close>, called with this \<open>engineHost\<close> at 2025-01-01T00:00:00Z, signs
  \<^verbatim>\<open>example.com0\<close>.
\<close>

theorem getAuthorization_signs_cut_host:
  "getAuthorization
     \<lparr>host = ''api.inworld.ai'', apiKey = \<lparr>key = ''abc'', secret = ''testsecret''\<rparr>,
      engineHost = ''example.com:4430''\<rparr> 1735689600000 (\<lambda>_. 0) =
   Inr (''IW1-HMAC-SHA256 ApiKey=abc,DateTime=20250101000000,Nonce=00000000000,Signature='' @
        getSignatureKey ''testsecret''
          [''20250101000000'', ''example.com0'',
           ''ai.inworld.engine.WorldEngine/GenerateToken'', ''00000000000'']) \<and>
   \<not> endsWith ''example.com:4430'' '':443'' \<and>
   spec_strip_port ''example.com:4430'' = ''example.com:4430'' \<and>
   ''example.com0'' \<noteq> ''example.com:4430''"
proof -
  have r: "String_replace ''example.com:4430'' '':443'' '''' = ''example.com0''"
    by simp
  have "getAuthorization
     \<lparr>host = ''api.inworld.ai'', apiKey = \<lparr>key = ''abc'', secret = ''testsecret''\<rparr>,
      engineHost = ''example.com:4430''\<rparr> 1735689600000 (\<lambda>_. 0) =
   Inr (''IW1-HMAC-SHA256 ApiKey=abc,DateTime=20250101000000,Nonce=00000000000,Signature='' @
        getSignatureKey ''testsecret''
          [''20250101000000'', ''example.com0'',
           ''ai.inworld.engine.WorldEngine/GenerateToken'', ''00000000000''])"
    using getAuthorization_eq [OF getDateTime_2025,
        of "\<lparr>host = ''api.inworld.ai'', apiKey = \<lparr>key = ''abc'', secret = ''testsecret''\<rparr>,
             engineHost = ''example.com:4430''\<rparr>" "\<lambda>_. 0"]
    by (simp add: nonce_zero r method_eq)
  moreover have "\<not> endsWith ''example.com:4430'' '':443''"
    by (simp add: endsWith_def)
  moreover have "spec_strip_port ''example.com:4430'' = ''example.com:4430''"
    by (simp add: spec_strip_port_def endsWith_def)
  moreover have "''example.com0'' \<noteq> ''example.com:4430''"
    by simp
  ultimately show ?thesis by (intro conjI)
qed

subsection \<open>An empty secret\<close>

text \<open>
  C4, as the code has it. The signer checks nothing: with an empty secret
  \<^verbatim>\<open>getSignatureKey\<close> returns 64 lowercase hexadecimal characters like for any other
  secret, and \<^verbatim>\<open>getAuthorization\<close> returns a header, never an error.
  \<^verbatim>\<open>generateAuthHeader\<close> itself passes an empty key and an empty secret when the
  environment sets none.
\<close>

theorem empty_secret_accepted:
  "length (getSignatureKey '''' ps) = 64 \<and>
   set (getSignatureKey '''' ps) \<subseteq> set ''0123456789abcdef'' \<and>
   (\<exists>t. getDateTime now = Inr t \<and>
        getAuthorization \<lparr>host = h, apiKey = \<lparr>key = k, secret = ''''\<rparr>, engineHost = e\<rparr> now rnd =
          Inr (''IW1-HMAC-SHA256 ApiKey='' @ k @ '',DateTime='' @ t @ '',Nonce='' @ nonce rnd @
               '',Signature='' @
               getSignatureKey '''' [t, String_replace e '':443'' '''', method_path, nonce rnd])) \<and>
   generateAuthHeader Map.empty now rnd =
     getAuthorization
       \<lparr>host = ''api.inworld.ai'', apiKey = \<lparr>key = '''', secret = ''''\<rparr>,
        engineHost = ''api-engine.inworld.ai''\<rparr> now rnd"
proof -
  obtain t where t: "getDateTime now = Inr t" using getDateTime_total by blast
  have "getAuthorization \<lparr>host = h, apiKey = \<lparr>key = k, secret = ''''\<rparr>, engineHost = e\<rparr> now rnd =
          Inr (''IW1-HMAC-SHA256 ApiKey='' @ k @ '',DateTime='' @ t @ '',Nonce='' @ nonce rnd @
               '',Signature='' @
               getSignatureKey '''' [t, String_replace e '':443'' '''', method_path, nonce rnd])"
    using getAuthorization_eq [OF t, of "\<lparr>host = h, apiKey = \<lparr>key = k, secret = ''''\<rparr>, engineHost = e\<rparr>" rnd]
    by simp
  with t have a: "\<exists>t. getDateTime now = Inr t \<and>
        getAuthorization \<lparr>host = h, apiKey = \<lparr>key = k, secret = ''''\<rparr>, engineHost = e\<rparr> now rnd =
          Inr (''IW1-HMAC-SHA256 ApiKey='' @ k @ '',DateTime='' @ t @ '',Nonce='' @ nonce rnd @
               '',Signature='' @
               getSignatureKey '''' [t, String_replace e '':443'' '''', method_path, nonce rnd])"
    by (intro exI conjI)
  have b: "generateAuthHeader Map.empty now rnd =
     getAuthorization
       \<lparr>host = ''api.inworld.ai'', apiKey = \<lparr>key = '''', secret = ''''\<rparr>,
        engineHost = ''api-engine.inworld.ai''\<rparr> now rnd"
    by (simp add: generateAuthHeader_def env_or_def)
  from getSignatureKey_format [of "''''" ps] a b show ?thesis by (intro conjI) blast+
qed

text \<open>
  An empty secret at 2025-01-01T00:00:00Z: the result is a header, with a signature of
  64 lowercase hexadecimal characters.
\<close>

theorem empty_secret_counterexample:
  "getAuthorization
     \<lparr>host = ''api.inworld.ai'', apiKey = \<lparr>key = ''abc'', secret = ''''\<rparr>,
      engineHost = ''api-engine.inworld.ai''\<rparr> 1735689600000 (\<lambda>_. 0) =
   Inr (''IW1-HMAC-SHA256 ApiKey=abc,DateTime=20250101000000,Nonce=00000000000,Signature='' @
        getSignatureKey ''''
          [''20250101000000'', ''api-engine.inworld.ai'',
           ''ai.inworld.engine.WorldEngine/GenerateToken'', ''00000000000'']) \<and>
   length (getSignatureKey ''''
          [''20250101000000'', ''api-engine.inworld.ai'',
           ''ai.inworld.engine.WorldEngine/GenerateToken'', ''00000000000'']) = 64 \<and>
   set (getSignatureKey ''''
          [''20250101000000'', ''api-engine.inworld.ai'',
           ''ai.inworld.engine.WorldEngine/GenerateToken'', ''00000000000''])
     \<subseteq> set ''0123456789abcdef''"
proof -
  have "getAuthorization
     \<lparr>host = ''api.inworld.ai'', apiKey = \<lparr>key = ''abc'', secret = ''''\<rparr>,
      engineHost = ''api-engine.inworld.ai''\<rparr> 1735689600000 (\<lambda>_. 0) =
   Inr (''IW1-HMAC-SHA256 ApiKey=abc,DateTime=20250101000000,Nonce=00000000000,Signature='' @
        getSignatureKey ''''
          [''20250101000000'', ''api-engine.inworld.ai'',
           ''ai.inworld.engine.WorldEngine/GenerateToken'', ''00000000000''])"
    using getAuthorization_eq [OF getDateTime_2025,
        of "\<lparr>host = ''api.inworld.ai'', apiKey = \<lparr>key = ''abc'', secret = ''''\<rparr>,
             engineHost = ''api-engine.inworld.ai''\<rparr>" "\<lambda>_. 0"]
    by (simp add: nonce_zero host_example method_eq)
  then show ?thesis
    using getSignatureKey_format [of "''''" "[''20250101000000'', ''api-engine.inworld.ai'',
           ''ai.inworld.engine.WorldEngine/GenerateToken'', ''00000000000'']"]
    by (intro conjI) blast+
qed

subsection \<open>Determinism and totality of the derivation\<close>

text \<open>
  C5. \<^verbatim>\<open>getSignatureKey\<close> is a function of its arguments alone: two calls with the same
  secret and the same four parameters (timestamp, host, method path, nonce) give the same
  string, and every result is 64 lowercase hexadecimal characters.
\<close>

theorem getSignatureKey_deterministic:
  "(secret1 = secret2 \<and> t1 = t2 \<and> h1 = h2 \<and> m1 = m2 \<and> n1 = n2 \<longrightarrow>
      getSignatureKey secret1 [t1, h1, m1, n1] = getSignatureKey secret2 [t2, h2, m2, n2]) \<and>
   length (getSignatureKey secret1 [t1, h1, m1, n1]) = 64 \<and>
   set (getSignatureKey secret1 [t1, h1, m1, n1]) \<subseteq> set ''0123456789abcdef''"
  using getSignatureKey_format [of secret1 "[t1, h1, m1, n1]"] by blast

theorem getSignatureKey_deterministic_witness:
  "getSignatureKey ''testsecret''
     [''20200101000000'', ''api.inworld.ai'', ''ai.inworld.engine.WorldEngine/GenerateToken'', ''abc123''] =
   getSignatureKey ''testsecret''
     [''20200101000000'', ''api.inworld.ai'', ''ai.inworld.engine.WorldEngine/GenerateToken'', ''abc123''] \<and>
   length (getSignatureKey ''testsecret''
     [''20200101000000'', ''api.inworld.ai'', ''ai.inworld.engine.WorldEngine/GenerateToken'', ''abc123'']) = 64"
  using getSignatureKey_deterministic
    [of "''testsecret''" "''testsecret''" "''20200101000000''" "''20200101000000''"
        "''api.inworld.ai''" "''api.inworld.ai''"
        "''ai.inworld.engine.WorldEngine/GenerateToken''" "''ai.inworld.engine.WorldEngine/GenerateToken''"
        "''abc123''" "''abc123''"]
  by blast

subsection \<open>The timestamp\<close>

text \<open>
  C6, as the code has it. For every instant from 0000-01-01T00:00:00Z up to
  9999-12-31T23:59:59.999Z, \<^verbatim>\<open>getDateTime\<close> returns exactly 14 decimal digits: the UTC year
  in four digits, then month, day, hour, minute and second in two digits each, computed
  from the time value alone (no time zone enters).
\<close>

theorem getDateTime_format:
  assumes "- 62167219200000 \<le> now" and "now < 253402300800000"
  shows "\<exists>s. getDateTime now = Inr s \<and> length s = 14 \<and> set s \<subseteq> set ''0123456789'' \<and>
           s = pad_decimal 4 (nat (YearFromTime now)) @ pad_decimal 2 (nat (MonthFromTime now + 1)) @
               pad_decimal 2 (nat (DateFromTime now)) @ pad_decimal 2 (nat (HourFromTime now)) @
               pad_decimal 2 (nat (MinFromTime now)) @ pad_decimal 2 (nat (SecFromTime now))"
proof -
  define s where "s =
     pad_decimal 4 (nat (YearFromTime now)) @ pad_decimal 2 (nat (MonthFromTime now + 1)) @
     pad_decimal 2 (nat (DateFromTime now)) @ pad_decimal 2 (nat (HourFromTime now)) @
     pad_decimal 2 (nat (MinFromTime now)) @ pad_decimal 2 (nat (SecFromTime now))"
  from assms have y: "0 \<le> YearFromTime now" "YearFromTime now \<le> 9999"
    using YearFromTime_range [of now] by simp_all
  then have ys: "year_string (YearFromTime now) = pad_decimal 4 (nat (YearFromTime now))"
    by (simp add: year_string_def)
  have "filter (\<lambda>c. c \<noteq> CHR ''-'') (pad_decimal 4 (nat (YearFromTime now))) =
          pad_decimal 4 (nat (YearFromTime now))"
    by (rule filter_pad_decimal) simp
  then have g: "getDateTime now = Inr s"
    unfolding s_def using getDateTime_eq [of now] ys by simp
  have "nat (YearFromTime now) < 10000" using y by simp
  then have "length (pad_decimal 4 (nat (YearFromTime now))) = 4" by (rule length_pad_decimal_4)
  then have l: "length s = 14"
    unfolding s_def using time_fields [of now] by (simp add: length_pad_decimal_2)
  have d: "set s \<subseteq> set ''0123456789''"
    unfolding s_def set_append using set_pad_decimal by (intro Un_least)
  from g l d s_def show ?thesis by blast
qed

theorem getDateTime_format_witness:
  "(- 62167219200000 :: int) \<le> 1735689600000 \<and> (1735689600000 :: int) < 253402300800000 \<and>
   (\<exists>s. getDateTime 1735689600000 = Inr s \<and> length s = 14 \<and> set s \<subseteq> set ''0123456789'') \<and>
   getDateTime 1735689600000 = Inr ''20250101000000''"
proof -
  have h1: "(- 62167219200000 :: int) \<le> 1735689600000" by simp
  have h2: "(1735689600000 :: int) < 253402300800000" by simp
  from getDateTime_format [OF h1 h2]
  have "\<exists>s. getDateTime 1735689600000 = Inr s \<and> length s = 14 \<and> set s \<subseteq> set ''0123456789''"
    by blast
  with h1 h2 getDateTime_2025 show ?thesis by (intro conjI)
qed

text \<open>
  At 10000-01-01T00:00:00Z \<^verbatim>\<open>toISOString\<close> writes the year as \<^verbatim>\<open>+010000\<close>, and the result
  has 17 characters, the first of them a plus sign.
\<close>

theorem getDateTime_year_10000_counterexample:
  "getDateTime 253402300800000 = Inr ''+0100000101000000'' \<and>
   length ''+0100000101000000'' = 17 \<and> CHR ''+'' \<notin> set ''0123456789''"
  by (simp add: getDateTime_eq fields_10000 year_string_def pad_decimal_values)

subsection \<open>The method path\<close>

text \<open>
  C7. In every call of \<^verbatim>\<open>getAuthorization\<close> the method path that is signed is the constant
  \<^verbatim>\<open>ai.inworld.engine.WorldEngine/GenerateToken\<close>: the path
  \<^verbatim>\<open>/ai.inworld.engine.WorldEngine/GenerateToken\<close> without its leading slash, nothing else
  changed.
\<close>

theorem method_is_canonical_constant:
  "method_path = ''ai.inworld.engine.WorldEngine/GenerateToken'' \<and>
   path = CHR ''/'' # method_path \<and>
   (\<exists>t. getDateTime now = Inr t \<and>
        getAuthorization a now rnd =
          Inr (''IW1-HMAC-SHA256 ApiKey='' @ key (apiKey a) @ '',DateTime='' @ t @ '',Nonce='' @ nonce rnd @
               '',Signature='' @
               getSignatureKey (secret (apiKey a))
                 [t, String_replace (engineHost a) '':443'' '''',
                  ''ai.inworld.engine.WorldEngine/GenerateToken'', nonce rnd]))"
proof -
  obtain t where t: "getDateTime now = Inr t" using getDateTime_total by blast
  have p: "path = CHR ''/'' # method_path" by (simp add: method_eq path_def)
  have "getAuthorization a now rnd =
          Inr (''IW1-HMAC-SHA256 ApiKey='' @ key (apiKey a) @ '',DateTime='' @ t @ '',Nonce='' @ nonce rnd @
               '',Signature='' @
               getSignatureKey (secret (apiKey a))
                 [t, String_replace (engineHost a) '':443'' '''',
                  ''ai.inworld.engine.WorldEngine/GenerateToken'', nonce rnd])"
    using getAuthorization_eq [OF t, of a rnd] by (simp only: method_eq)
  with t have "\<exists>t. getDateTime now = Inr t \<and>
        getAuthorization a now rnd =
          Inr (''IW1-HMAC-SHA256 ApiKey='' @ key (apiKey a) @ '',DateTime='' @ t @ '',Nonce='' @ nonce rnd @
               '',Signature='' @
               getSignatureKey (secret (apiKey a))
                 [t, String_replace (engineHost a) '':443'' '''',
                  ''ai.inworld.engine.WorldEngine/GenerateToken'', nonce rnd])"
    by (intro exI conjI)
  with method_eq p show ?thesis by (intro conjI)
qed

subsection \<open>The error branch of the derivation\<close>




subsection \<open>The nonce\<close>

text \<open>
  C9. Whatever bytes the random source gives, the nonce is the slice from index 1 to
  index 12 of the 32 hexadecimal characters that encode 16 random bytes: 11 lowercase
  hexadecimal characters in every call.
\<close>

theorem nonce_fixed_length:
  "length (Buffer_toString_hex (randomBytes 16 rnd)) = 32 \<and>
   nonce rnd = take 11 (drop 1 (Buffer_toString_hex (randomBytes 16 rnd))) \<and>
   length (nonce rnd) = 11 \<and>
   set (nonce rnd) \<subseteq> set ''0123456789abcdef''"
proof -
  have l: "length (Buffer_toString_hex (randomBytes 16 rnd)) = 32"
    by (simp add: length_Buffer_toString_hex length_randomBytes)
  have "set (nonce rnd) \<subseteq> set (Buffer_toString_hex (randomBytes 16 rnd))"
    unfolding nonce_eq by (rule subset_trans [OF set_take_subset set_drop_subset])
  then have "set (nonce rnd) \<subseteq> set ''0123456789abcdef''"
    using set_Buffer_toString_hex by (rule subset_trans)
  moreover have "length (nonce rnd) = 11" unfolding nonce_eq using l by simp
  ultimately show ?thesis using l nonce_eq by (intro conjI)
qed

subsection \<open>The \<open>host\<close> argument\<close>

text \<open>
  C10. The header does not depend on the \<open>host\<close> argument of \<^verbatim>\<open>getAuthorization\<close>: two
  calls that differ only in \<open>host\<close> return the same header, since only \<open>engineHost\<close> is
  signed. Likewise the header of \<^verbatim>\<open>generateAuthHeader\<close> does not depend on the variable
  \<^verbatim>\<open>INWORLD_HOST\<close>, while the request of \<^verbatim>\<open>getJwtToken\<close> goes to the host that this
  variable names.
\<close>

theorem header_independent_of_host:
  "getAuthorization \<lparr>host = h1, apiKey = k, engineHost = e\<rparr> now rnd =
     getAuthorization \<lparr>host = h2, apiKey = k, engineHost = e\<rparr> now rnd \<and>
   generateAuthHeader (ev(''INWORLD_HOST'' \<mapsto> h)) now rnd = generateAuthHeader ev now rnd \<and>
   (\<exists>hdr. generateAuthHeader ev now rnd = Inr hdr \<and>
      getJwtToken_request (ev(''INWORLD_HOST'' \<mapsto> c # cs)) now rnd =
        Inr \<lparr>url = ''https://'' @ (c # cs) @ ''/auth/v1/tokens/token:generate'',
             body_key = env_or ev ''INWORLD_KEY'' '''',
             body_resources = [env_or ev ''INWORLD_WORKSPACE'' ''workspaces/default-workspace''],
             header_Authorization = hdr,
             header_Content_Type = ''application/json''\<rparr>)"
proof -
  obtain hdr where hdr: "generateAuthHeader ev now rnd = Inr hdr"
    unfolding generateAuthHeader_def using getAuthorization_total by blast
  have hdr': "generateAuthHeader (ev(''INWORLD_HOST'' \<mapsto> c # cs)) now rnd = Inr hdr"
    using hdr by (simp only: generateAuthHeader_host)
  have k: "env_or (ev(''INWORLD_HOST'' \<mapsto> c # cs)) ''INWORLD_KEY'' '''' = env_or ev ''INWORLD_KEY'' ''''"
    by (rule env_or_other) simp
  have w: "env_or (ev(''INWORLD_HOST'' \<mapsto> c # cs)) ''INWORLD_WORKSPACE'' ''workspaces/default-workspace'' =
           env_or ev ''INWORLD_WORKSPACE'' ''workspaces/default-workspace''"
    by (rule env_or_other) simp
  have r: "getJwtToken_request (ev(''INWORLD_HOST'' \<mapsto> c # cs)) now rnd =
        Inr \<lparr>url = ''https://'' @ (c # cs) @ ''/auth/v1/tokens/token:generate'',
             body_key = env_or ev ''INWORLD_KEY'' '''',
             body_resources = [env_or ev ''INWORLD_WORKSPACE'' ''workspaces/default-workspace''],
             header_Authorization = hdr,
             header_Content_Type = ''application/json''\<rparr>"
    unfolding getJwtToken_request_def hdr' k w env_or_same by simp
  from hdr r have "\<exists>hdr. generateAuthHeader ev now rnd = Inr hdr \<and>
      getJwtToken_request (ev(''INWORLD_HOST'' \<mapsto> c # cs)) now rnd =
        Inr \<lparr>url = ''https://'' @ (c # cs) @ ''/auth/v1/tokens/token:generate'',
             body_key = env_or ev ''INWORLD_KEY'' '''',
             body_resources = [env_or ev ''INWORLD_WORKSPACE'' ''workspaces/default-workspace''],
             header_Authorization = hdr,
             header_Content_Type = ''application/json''\<rparr>"
    by (intro exI conjI)
  with getAuthorization_host [of h1 k e now rnd h2] generateAuthHeader_host [of ev h now rnd]
  show ?thesis by (intro conjI)
qed

end
